theory Spec2Isabelle
  imports Main
begin

section \<open>Data model\<close>

text \<open>
  The repository holds two small web applications. Variant A is
  \<^verbatim>\<open>chapter-04-working-with-docker/02-python-flask-app/app.py\<close>, variant B is
  \<^verbatim>\<open>templates/dockerfiles/python/app.py\<close>. Each registers two view functions and
  starts the framework's server when it is run as a script.
\<close>

text \<open>The values a view function hands to \<^verbatim>\<open>jsonify\<close>: Python dicts keep the order
  of their literal, so an object is an association list.\<close>

datatype json =
    JNull
  | JBool bool
  | JNum int
  | JStr string
  | JObj "(string \<times> json) list"

text \<open>What a response carries: a JSON document, or the page the framework writes itself
  when no rule matches.\<close>

datatype payload = Json json | NotFoundPage

record response =
  status :: nat
  body :: payload

text \<open>An incoming GET request. The path is what the rules are matched against; the query
  string, headers and body travel beside it.\<close>

record request =
  path :: string
  query_string :: string
  headers :: "(string \<times> string) list"
  data :: string

text \<open>What a view function can reach besides its arguments: \<^verbatim>\<open>os.environ\<close>,
  \<^verbatim>\<open>sys.argv\<close> and \<^verbatim>\<open>sys.version\<close>.\<close>

record process =
  environ :: "string \<rightharpoonup> string"
  argv :: "string list"
  sys_version :: string

text \<open>\<^verbatim>\<open>os.getenv(key, default)\<close> is \<^verbatim>\<open>os.environ.get(key, default)\<close>.\<close>

definition os_getenv :: "process \<Rightarrow> string \<Rightarrow> string \<Rightarrow> string" where
  "os_getenv p key dflt = (case environ p key of None \<Rightarrow> dflt | Some v \<Rightarrow> v)"

section \<open>The framework's interface\<close>

text \<open>Modelled from the spec: the web framework (\<^verbatim>\<open>flask\<close>) is imported by both
  files and is not part of the repository's sources. \<^verbatim>\<open>jsonify\<close> serialises its
  argument as the JSON body of a response with status 200.\<close>

definition jsonify :: "json \<Rightarrow> response" where
  "jsonify j = \<lparr>status = 200, body = Json j\<rparr>"

text \<open>Modelled from the spec: a view that returns the pair \<^verbatim>\<open>(response, code)\<close> has the
  framework set the status of the response to the code.\<close>

definition with_status :: "response \<Rightarrow> nat \<Rightarrow> response" where
  "with_status r code = r\<lparr>status := code\<rparr>"

text \<open>Modelled from the spec: the framework's own answer when no rule matches the path,
  status 404; neither file registers an error handler.\<close>

definition not_found :: response where
  "not_found = \<lparr>status = 404, body = NotFoundPage\<rparr>"

type_synonym view = "process \<Rightarrow> response"

text \<open>Modelled from the spec: the framework dispatches a GET request on its path to the
  view registered for it by \<^verbatim>\<open>@app.route\<close>. The view is called with no argument;
  neither file imports the framework's request object.\<close>

definition dispatch_request :: "(string \<times> view) list \<Rightarrow> process \<Rightarrow> request \<Rightarrow> response" where
  "dispatch_request url_map p r =
     (case map_of url_map (path r) of None \<Rightarrow> not_found | Some v \<Rightarrow> v p)"

text \<open>The arguments of the call \<^verbatim>\<open>app.run(host=..., port=..., debug=...)\<close>; an argument
  the call does not pass is \<open>None\<close>.\<close>

record run_call =
  host :: string
  port :: nat
  debug :: "bool option"

section \<open>Variant A\<close>

definition hello :: view where
  "hello p = jsonify (JObj
     [(''message'', JStr ''Hello from Docker!''),
      (''environment'', JStr (os_getenv p ''ENVIRONMENT'' ''development'')),
      (''version'', JStr (os_getenv p ''APP_VERSION'' ''1.0.0''))])"

definition health_A :: view where
  "health_A p = with_status (jsonify (JObj [(''status'', JStr ''healthy'')])) 200"

definition url_map_A :: "(string \<times> view) list" where
  "url_map_A = [(''/'', hello), (''/health'', health_A)]"

definition main_A :: "process \<Rightarrow> run_call" where
  "main_A p = \<lparr>host = ''0.0.0.0'', port = 5000, debug = Some False\<rparr>"

section \<open>Variant B\<close>

definition index :: view where
  "index p = jsonify (JObj
     [(''message'', JStr ''Python Docker Template''),
      (''python_version'', JStr (sys_version p)),
      (''environment'', JStr (os_getenv p ''ENVIRONMENT'' ''development''))])"

definition health_B :: view where
  "health_B p = with_status (jsonify (JObj [(''status'', JStr ''healthy'')])) 200"

definition url_map_B :: "(string \<times> view) list" where
  "url_map_B = [(''/'', index), (''/health'', health_B)]"

definition main_B :: "process \<Rightarrow> run_call" where
  "main_B p = \<lparr>host = ''0.0.0.0'', port = 8000, debug = None\<rparr>"

section \<open>Both variants as one server\<close>

datatype variant = VariantA | VariantB

fun url_map :: "variant \<Rightarrow> (string \<times> view) list" where
  "url_map VariantA = url_map_A"
| "url_map VariantB = url_map_B"

fun main :: "variant \<Rightarrow> process \<Rightarrow> run_call" where
  "main VariantA = main_A"
| "main VariantB = main_B"

definition wsgi_app :: "variant \<Rightarrow> process \<Rightarrow> request \<Rightarrow> response" where
  "wsgi_app v = dispatch_request (url_map v)"

text \<open>The field of a JSON object body, when the body is one and has it.\<close>

fun field :: "string \<Rightarrow> response \<Rightarrow> json option" where
  "field k r = (case body r of Json (JObj kvs) \<Rightarrow> map_of kvs k | _ \<Rightarrow> None)"

text \<open>Modelled from the spec: the framework's server, started by \<^verbatim>\<open>app.run\<close>, is not
  part of the repository's sources. A run of it: what happens to the process between
  requests is a change of \<^verbatim>\<open>os.environ\<close>, and each GET request is answered by calling the
  view in the process as it is then; the server keeps no state of its own.\<close>

datatype event = Putenv string string | Unsetenv string | Get request

fun apply_env :: "process \<Rightarrow> event \<Rightarrow> process" where
  "apply_env p (Putenv k v) = p\<lparr>environ := (environ p)(k \<mapsto> v)\<rparr>"
| "apply_env p (Unsetenv k) = p\<lparr>environ := (environ p)(k := None)\<rparr>"
| "apply_env p (Get r) = p"

fun serve :: "variant \<Rightarrow> process \<Rightarrow> event list \<Rightarrow> response list" where
  "serve v p [] = []"
| "serve v p (Get r # es) = wsgi_app v p r # serve v p es"
| "serve v p (e # es) = serve v (apply_env p e) es"

text \<open>Whether a JSON value is a string.\<close>

fun is_str :: "json \<Rightarrow> bool" where
  "is_str (JStr s) = True"
| "is_str _ = False"

section \<open>Dispatch on the two registered paths\<close>

lemma wsgi_app_root_A: "path r = ''/'' \<Longrightarrow> wsgi_app VariantA p r = hello p"
  by (simp add: wsgi_app_def dispatch_request_def url_map_A_def)

lemma wsgi_app_root_B: "path r = ''/'' \<Longrightarrow> wsgi_app VariantB p r = index p"
  by (simp add: wsgi_app_def dispatch_request_def url_map_B_def)

lemma wsgi_app_health_A: "path r = ''/health'' \<Longrightarrow> wsgi_app VariantA p r = health_A p"
  by (simp add: wsgi_app_def dispatch_request_def url_map_A_def)

lemma wsgi_app_health_B: "path r = ''/health'' \<Longrightarrow> wsgi_app VariantB p r = health_B p"
  by (simp add: wsgi_app_def dispatch_request_def url_map_B_def)

lemma wsgi_app_unrouted:
  "path r \<noteq> ''/'' \<Longrightarrow> path r \<noteq> ''/health'' \<Longrightarrow> wsgi_app v p r = not_found"
  by (cases v) (simp_all add: wsgi_app_def dispatch_request_def url_map_A_def url_map_B_def)

lemma wsgi_app_path_only: "path r1 = path r2 \<Longrightarrow> wsgi_app v p r1 = wsgi_app v p r2"
  by (simp add: wsgi_app_def dispatch_request_def)

lemma field_hello_environment:
  "field ''environment'' (hello p) = Some (JStr (os_getenv p ''ENVIRONMENT'' ''development''))"
  by (simp add: hello_def jsonify_def)

lemma field_hello_version:
  "field ''version'' (hello p) = Some (JStr (os_getenv p ''APP_VERSION'' ''1.0.0''))"
  by (simp add: hello_def jsonify_def)

lemma field_index_environment:
  "field ''environment'' (index p) = Some (JStr (os_getenv p ''ENVIRONMENT'' ''development''))"
  by (simp add: index_def jsonify_def)

lemma os_getenv_set: "environ p k = Some x \<Longrightarrow> os_getenv p k d = x"
  by (simp add: os_getenv_def)

lemma os_getenv_unset: "environ p k = None \<Longrightarrow> os_getenv p k d = d"
  by (simp add: os_getenv_def)

lemma serve_append:
  "serve v p (es @ es') = serve v p es @ serve v (foldl apply_env p es) es'"
  by (induction v p es rule: serve.induct) simp_all

section \<open>The health endpoint\<close>

text \<open>C1: every GET request to \<^verbatim>\<open>/health\<close>, in either variant, is answered with status
  200 and the JSON object with the single member \<^verbatim>\<open>status\<close> = \<^verbatim>\<open>healthy\<close>, whatever
  the request's query string, headers and body and whatever the process environment: the
  view reads nothing and has no failing branch.\<close>

theorem health_always_healthy:
  "path r = ''/health'' \<Longrightarrow>
     wsgi_app v p r = \<lparr>status = 200, body = Json (JObj [(''status'', JStr ''healthy'')])\<rparr>"
  by (cases v)
     (simp_all add: wsgi_app_health_A wsgi_app_health_B health_A_def health_B_def
        with_status_def jsonify_def)

theorem health_always_healthy_witness:
  "path \<lparr>path = ''/health'', query_string = ''verbose=1'',
         headers = [(''Accept'', ''text/html'')], data = ''ping''\<rparr> = ''/health''
   \<and> wsgi_app VariantB \<lparr>environ = Map.empty, argv = [], sys_version = ''3.11.4''\<rparr>
        \<lparr>path = ''/health'', query_string = ''verbose=1'',
         headers = [(''Accept'', ''text/html'')], data = ''ping''\<rparr>
     = \<lparr>status = 200, body = Json (JObj [(''status'', JStr ''healthy'')])\<rparr>"
  using health_always_healthy
    [of "\<lparr>path = ''/health'', query_string = ''verbose=1'',
          headers = [(''Accept'', ''text/html'')], data = ''ping''\<rparr>"
        VariantB "\<lparr>environ = Map.empty, argv = [], sys_version = ''3.11.4''\<rparr>"]
  by simp

section \<open>The root endpoint with its defaults\<close>

text \<open>C2: in variant A, when neither \<^verbatim>\<open>ENVIRONMENT\<close> nor \<^verbatim>\<open>APP_VERSION\<close> is set, a GET
  request to \<^verbatim>\<open>/\<close> is answered with status 200 and the object with \<^verbatim>\<open>message\<close> =
  \<^verbatim>\<open>Hello from Docker!\<close>, \<^verbatim>\<open>environment\<close> = \<^verbatim>\<open>development\<close> and \<^verbatim>\<open>version\<close> =
  \<^verbatim>\<open>1.0.0\<close>.\<close>

theorem hello_defaults:
  assumes "path r = ''/''"
    and "environ p ''ENVIRONMENT'' = None"
    and "environ p ''APP_VERSION'' = None"
  shows "wsgi_app VariantA p r =
     \<lparr>status = 200,
      body = Json (JObj [(''message'', JStr ''Hello from Docker!''),
                         (''environment'', JStr ''development''),
                         (''version'', JStr ''1.0.0'')])\<rparr>"
  using assms by (simp add: wsgi_app_root_A hello_def jsonify_def os_getenv_unset)

theorem hello_defaults_witness:
  "path \<lparr>path = ''/'', query_string = [], headers = [], data = []\<rparr> = ''/''
   \<and> environ \<lparr>environ = [''HOME'' \<mapsto> ''/root''], argv = [''app.py''],
               sys_version = ''3.11.4''\<rparr> ''ENVIRONMENT'' = None
   \<and> environ \<lparr>environ = [''HOME'' \<mapsto> ''/root''], argv = [''app.py''],
               sys_version = ''3.11.4''\<rparr> ''APP_VERSION'' = None
   \<and> wsgi_app VariantA
        \<lparr>environ = [''HOME'' \<mapsto> ''/root''], argv = [''app.py''], sys_version = ''3.11.4''\<rparr>
        \<lparr>path = ''/'', query_string = [], headers = [], data = []\<rparr>
     = \<lparr>status = 200,
        body = Json (JObj [(''message'', JStr ''Hello from Docker!''),
                           (''environment'', JStr ''development''),
                           (''version'', JStr ''1.0.0'')])\<rparr>"
  using hello_defaults
    [of "\<lparr>path = ''/'', query_string = [], headers = [], data = []\<rparr>"
        "\<lparr>environ = [''HOME'' \<mapsto> ''/root''], argv = [''app.py''],
          sys_version = ''3.11.4''\<rparr>"]
  by simp

text \<open>C3: in variant B, when \<^verbatim>\<open>ENVIRONMENT\<close> is not set, a GET request to \<^verbatim>\<open>/\<close> is
  answered with status 200 and the object with \<^verbatim>\<open>message\<close> = \<^verbatim>\<open>Python Docker Template\<close>,
  \<^verbatim>\<open>python_version\<close> = the interpreter's version string and \<^verbatim>\<open>environment\<close> =
  \<^verbatim>\<open>development\<close>.\<close>

theorem index_defaults:
  assumes "path r = ''/''"
    and "environ p ''ENVIRONMENT'' = None"
  shows "wsgi_app VariantB p r =
     \<lparr>status = 200,
      body = Json (JObj [(''message'', JStr ''Python Docker Template''),
                         (''python_version'', JStr (sys_version p)),
                         (''environment'', JStr ''development'')])\<rparr>"
  using assms by (simp add: wsgi_app_root_B index_def jsonify_def os_getenv_unset)

theorem index_defaults_witness:
  "path \<lparr>path = ''/'', query_string = [], headers = [], data = []\<rparr> = ''/''
   \<and> environ \<lparr>environ = [''APP_VERSION'' \<mapsto> ''9.9''], argv = [],
               sys_version = ''3.11.4 (main)''\<rparr> ''ENVIRONMENT'' = None
   \<and> wsgi_app VariantB
        \<lparr>environ = [''APP_VERSION'' \<mapsto> ''9.9''], argv = [], sys_version = ''3.11.4 (main)''\<rparr>
        \<lparr>path = ''/'', query_string = [], headers = [], data = []\<rparr>
     = \<lparr>status = 200,
        body = Json (JObj [(''message'', JStr ''Python Docker Template''),
                           (''python_version'', JStr ''3.11.4 (main)''),
                           (''environment'', JStr ''development'')])\<rparr>"
  using index_defaults
    [of "\<lparr>path = ''/'', query_string = [], headers = [], data = []\<rparr>"
        "\<lparr>environ = [''APP_VERSION'' \<mapsto> ''9.9''], argv = [],
          sys_version = ''3.11.4 (main)''\<rparr>"]
  by simp

section \<open>The environment variables\<close>

text \<open>C4: whenever \<^verbatim>\<open>ENVIRONMENT\<close> is set to \<^verbatim>\<open>staging\<close>, the \<^verbatim>\<open>environment\<close> member of
  the answer to a GET request to \<^verbatim>\<open>/\<close> is \<^verbatim>\<open>staging\<close>, in variant A and in variant B.\<close>

theorem environment_staging:
  assumes "path r = ''/''"
    and "environ p ''ENVIRONMENT'' = Some ''staging''"
  shows "field ''environment'' (wsgi_app v p r) = Some (JStr ''staging'')"
proof (cases v)
  case VariantA
  with assms show ?thesis
    by (simp only: wsgi_app_root_A field_hello_environment os_getenv_set)
next
  case VariantB
  with assms show ?thesis
    by (simp only: wsgi_app_root_B field_index_environment os_getenv_set)
qed

theorem environment_staging_witness:
  "path \<lparr>path = ''/'', query_string = [], headers = [], data = []\<rparr> = ''/''
   \<and> environ \<lparr>environ = [''ENVIRONMENT'' \<mapsto> ''staging''], argv = [],
               sys_version = ''3.12.0''\<rparr> ''ENVIRONMENT'' = Some ''staging''
   \<and> field ''environment''
        (wsgi_app VariantA
           \<lparr>environ = [''ENVIRONMENT'' \<mapsto> ''staging''], argv = [], sys_version = ''3.12.0''\<rparr>
           \<lparr>path = ''/'', query_string = [], headers = [], data = []\<rparr>)
     = Some (JStr ''staging'')"
  using environment_staging
    [of "\<lparr>path = ''/'', query_string = [], headers = [], data = []\<rparr>"
        "\<lparr>environ = [''ENVIRONMENT'' \<mapsto> ''staging''], argv = [],
          sys_version = ''3.12.0''\<rparr>"
        VariantA]
  by simp

text \<open>C5: when \<^verbatim>\<open>APP_VERSION\<close> is set to \<^verbatim>\<open>2.3.1\<close>, the \<^verbatim>\<open>version\<close> member of variant
  A's answer to a GET request to \<^verbatim>\<open>/\<close> is \<^verbatim>\<open>2.3.1\<close>; and variant B answers the same
  in two environments that agree on every variable other than \<^verbatim>\<open>APP_VERSION\<close>.\<close>

theorem app_version_only_in_A:
  assumes "path r = ''/''"
  shows "(environ p ''APP_VERSION'' = Some ''2.3.1'' \<longrightarrow>
            field ''version'' (wsgi_app VariantA p r) = Some (JStr ''2.3.1''))
       \<and> ((\<forall>k. k \<noteq> ''APP_VERSION'' \<longrightarrow> e k = environ p k) \<longrightarrow>
            wsgi_app VariantB (p\<lparr>environ := e\<rparr>) r = wsgi_app VariantB p r)"
proof (intro conjI impI)
  assume "environ p ''APP_VERSION'' = Some ''2.3.1''"
  with assms show "field ''version'' (wsgi_app VariantA p r) = Some (JStr ''2.3.1'')"
    by (simp only: wsgi_app_root_A field_hello_version os_getenv_set)
next
  assume same: "\<forall>k. k \<noteq> ''APP_VERSION'' \<longrightarrow> e k = environ p k"
  then have "e ''ENVIRONMENT'' = environ p ''ENVIRONMENT''"
    by simp
  then have "index (p\<lparr>environ := e\<rparr>) = index p"
    by (simp add: index_def os_getenv_def)
  with assms show "wsgi_app VariantB (p\<lparr>environ := e\<rparr>) r = wsgi_app VariantB p r"
    by (simp add: wsgi_app_root_B)
qed

theorem app_version_only_in_A_witness:
  "path \<lparr>path = ''/'', query_string = [], headers = [], data = []\<rparr> = ''/''
   \<and> environ \<lparr>environ = [''APP_VERSION'' \<mapsto> ''2.3.1''], argv = [],
               sys_version = ''3.12.0''\<rparr> ''APP_VERSION'' = Some ''2.3.1''
   \<and> field ''version''
        (wsgi_app VariantA
           \<lparr>environ = [''APP_VERSION'' \<mapsto> ''2.3.1''], argv = [], sys_version = ''3.12.0''\<rparr>
           \<lparr>path = ''/'', query_string = [], headers = [], data = []\<rparr>)
     = Some (JStr ''2.3.1'')
   \<and> wsgi_app VariantB
        \<lparr>environ = Map.empty, argv = [], sys_version = ''3.12.0''\<rparr>
        \<lparr>path = ''/'', query_string = [], headers = [], data = []\<rparr>
     = wsgi_app VariantB
        \<lparr>environ = [''APP_VERSION'' \<mapsto> ''2.3.1''], argv = [], sys_version = ''3.12.0''\<rparr>
        \<lparr>path = ''/'', query_string = [], headers = [], data = []\<rparr>"
  using app_version_only_in_A
    [of "\<lparr>path = ''/'', query_string = [], headers = [], data = []\<rparr>"
        "\<lparr>environ = [''APP_VERSION'' \<mapsto> ''2.3.1''], argv = [],
          sys_version = ''3.12.0''\<rparr>"
        Map.empty]
  by simp

text \<open>C6: the environment is looked up while the request is handled and nothing is kept
  from one request to the next. In any run of the server, a GET request to \<^verbatim>\<open>/\<close> that
  comes after the events \<open>es\<close> is answered in the process as those events left it: the
  \<^verbatim>\<open>environment\<close> member (and in variant A the \<^verbatim>\<open>version\<close> member) is the value the
  variable has then, so a change made between two requests shows in the second answer.\<close>

theorem environment_read_per_request:
  assumes "path r = ''/''"
  shows "serve v p (es @ [Get r]) = serve v p es @ [wsgi_app v (foldl apply_env p es) r]
       \<and> (\<forall>x. environ (foldl apply_env p es) ''ENVIRONMENT'' = Some x \<longrightarrow>
            field ''environment'' (last (serve v p (es @ [Get r]))) = Some (JStr x))
       \<and> (\<forall>x. environ (foldl apply_env p es) ''APP_VERSION'' = Some x \<longrightarrow>
            field ''version'' (last (serve VariantA p (es @ [Get r]))) = Some (JStr x))"
proof (intro conjI allI impI)
  show "serve v p (es @ [Get r]) = serve v p es @ [wsgi_app v (foldl apply_env p es) r]"
    by (simp add: serve_append)
next
  fix x
  assume "environ (foldl apply_env p es) ''ENVIRONMENT'' = Some x"
  with assms have "field ''environment'' (wsgi_app v (foldl apply_env p es) r) = Some (JStr x)"
    by (cases v)
       (simp_all only: wsgi_app_root_A wsgi_app_root_B field_hello_environment
          field_index_environment os_getenv_set)
  then show "field ''environment'' (last (serve v p (es @ [Get r]))) = Some (JStr x)"
    by (simp only: serve_append serve.simps last_snoc append_Nil2)
next
  fix x
  assume "environ (foldl apply_env p es) ''APP_VERSION'' = Some x"
  with assms have "field ''version'' (wsgi_app VariantA (foldl apply_env p es) r) = Some (JStr x)"
    by (simp only: wsgi_app_root_A field_hello_version os_getenv_set)
  then show "field ''version'' (last (serve VariantA p (es @ [Get r]))) = Some (JStr x)"
    by (simp only: serve_append serve.simps last_snoc append_Nil2)
qed

theorem environment_read_per_request_witness:
  "path \<lparr>path = ''/'', query_string = [], headers = [], data = []\<rparr> = ''/''
   \<and> serve VariantA \<lparr>environ = Map.empty, argv = [], sys_version = ''3.12.0''\<rparr>
        [Get \<lparr>path = ''/'', query_string = [], headers = [], data = []\<rparr>,
         Putenv ''ENVIRONMENT'' ''staging'',
         Putenv ''APP_VERSION'' ''2.3.1'',
         Get \<lparr>path = ''/'', query_string = [], headers = [], data = []\<rparr>]
     = [\<lparr>status = 200,
         body = Json (JObj [(''message'', JStr ''Hello from Docker!''),
                            (''environment'', JStr ''development''),
                            (''version'', JStr ''1.0.0'')])\<rparr>,
        \<lparr>status = 200,
         body = Json (JObj [(''message'', JStr ''Hello from Docker!''),
                            (''environment'', JStr ''staging''),
                            (''version'', JStr ''2.3.1'')])\<rparr>]"
  using environment_read_per_request
    [of "\<lparr>path = ''/'', query_string = [], headers = [], data = []\<rparr>"
        VariantA
        "\<lparr>environ = Map.empty, argv = [], sys_version = ''3.12.0''\<rparr>"
        "[Get \<lparr>path = ''/'', query_string = [], headers = [], data = []\<rparr>,
          Putenv ''ENVIRONMENT'' ''staging'',
          Putenv ''APP_VERSION'' ''2.3.1'']"]
  by (simp add: wsgi_app_root_A hello_def jsonify_def os_getenv_def)

section \<open>The request beyond its path\<close>

text \<open>C7: two GET requests to \<^verbatim>\<open>/\<close> handled in the same process get the same answer in
  either variant, however they differ in query string, headers or body: the views take no
  argument and read nothing of the request.\<close>

theorem root_ignores_request:
  assumes "path r1 = ''/''" and "path r2 = ''/''"
  shows "wsgi_app v p r1 = wsgi_app v p r2"
  using assms by (simp add: wsgi_app_path_only)

theorem root_ignores_request_witness:
  "path \<lparr>path = ''/'', query_string = ''name=x&debug=1'',
         headers = [(''X-Forwarded-For'', ''10.0.0.1'')], data = ''{}''\<rparr> = ''/''
   \<and> path \<lparr>path = ''/'', query_string = [], headers = [], data = []\<rparr> = ''/''
   \<and> wsgi_app VariantB
        \<lparr>environ = [''ENVIRONMENT'' \<mapsto> ''prod''], argv = [], sys_version = ''3.12.0''\<rparr>
        \<lparr>path = ''/'', query_string = ''name=x&debug=1'',
         headers = [(''X-Forwarded-For'', ''10.0.0.1'')], data = ''{}''\<rparr>
     = wsgi_app VariantB
        \<lparr>environ = [''ENVIRONMENT'' \<mapsto> ''prod''], argv = [], sys_version = ''3.12.0''\<rparr>
        \<lparr>path = ''/'', query_string = [], headers = [], data = []\<rparr>"
  using root_ignores_request
    [of "\<lparr>path = ''/'', query_string = ''name=x&debug=1'',
          headers = [(''X-Forwarded-For'', ''10.0.0.1'')], data = ''{}''\<rparr>"
        "\<lparr>path = ''/'', query_string = [], headers = [], data = []\<rparr>"
        VariantB
        "\<lparr>environ = [''ENVIRONMENT'' \<mapsto> ''prod''], argv = [], sys_version = ''3.12.0''\<rparr>"]
  by simp

section \<open>Startup\<close>

text \<open>C8: run as a script, variant A calls the server with host \<^verbatim>\<open>0.0.0.0\<close>, port 5000
  and \<^verbatim>\<open>debug=False\<close>; variant B calls it with host \<^verbatim>\<open>0.0.0.0\<close> and port 8000 and passes
  no \<^verbatim>\<open>debug\<close> argument. The call is the same in every process: no environment variable
  and no command-line argument enters it.\<close>

theorem listening_configuration:
  "main VariantA p = \<lparr>host = ''0.0.0.0'', port = 5000, debug = Some False\<rparr>
   \<and> main VariantB p = \<lparr>host = ''0.0.0.0'', port = 8000, debug = None\<rparr>
   \<and> main v p = main v q"
  by (cases v) (simp_all add: main_A_def main_B_def)

section \<open>Paths without a rule\<close>

text \<open>C9: a GET request whose path is neither \<^verbatim>\<open>/\<close> nor \<^verbatim>\<open>/health\<close> is answered, in
  either variant, with the framework's own not-found response, status 404, which is not a
  2xx status; and the server goes on to answer the requests that follow.\<close>

theorem unknown_path_not_found:
  assumes "path r \<noteq> ''/''" and "path r \<noteq> ''/health''"
  shows "wsgi_app v p r = not_found
       \<and> status (wsgi_app v p r) = 404
       \<and> \<not> (200 \<le> status (wsgi_app v p r) \<and> status (wsgi_app v p r) < 300)
       \<and> serve v p (Get r # es) = not_found # serve v p es"
  using assms by (simp add: wsgi_app_unrouted not_found_def)

theorem unknown_path_not_found_witness:
  "path \<lparr>path = ''/nonexistent'', query_string = [], headers = [], data = []\<rparr> \<noteq> ''/''
   \<and> path \<lparr>path = ''/nonexistent'', query_string = [], headers = [], data = []\<rparr>
       \<noteq> ''/health''
   \<and> serve VariantA \<lparr>environ = Map.empty, argv = [], sys_version = ''3.12.0''\<rparr>
        [Get \<lparr>path = ''/nonexistent'', query_string = [], headers = [], data = []\<rparr>,
         Get \<lparr>path = ''/health'', query_string = [], headers = [], data = []\<rparr>]
     = [\<lparr>status = 404, body = NotFoundPage\<rparr>,
        \<lparr>status = 200, body = Json (JObj [(''status'', JStr ''healthy'')])\<rparr>]"
  using unknown_path_not_found
    [of "\<lparr>path = ''/nonexistent'', query_string = [], headers = [], data = []\<rparr>"
        VariantA
        "\<lparr>environ = Map.empty, argv = [], sys_version = ''3.12.0''\<rparr>"
        "[Get \<lparr>path = ''/health'', query_string = [], headers = [], data = []\<rparr>]"]
  by (simp add: not_found_def wsgi_app_health_A health_A_def with_status_def jsonify_def)

section \<open>The shape of the root answer\<close>

text \<open>C10: in every process, whatever \<^verbatim>\<open>ENVIRONMENT\<close> and \<^verbatim>\<open>APP_VERSION\<close> are set to or
  whether they are set at all, the answer to a GET request to \<^verbatim>\<open>/\<close> has status 200 and a
  JSON object as body whose keys are exactly \<^verbatim>\<open>message\<close>, \<^verbatim>\<open>environment\<close>, \<^verbatim>\<open>version\<close>
  in variant A and \<^verbatim>\<open>message\<close>, \<^verbatim>\<open>python_version\<close>, \<^verbatim>\<open>environment\<close> in variant B, each
  once and each with a string as value.\<close>

theorem root_body_shape:
  assumes "path r = ''/''"
  shows "(\<exists>kvs. wsgi_app VariantA p r = \<lparr>status = 200, body = Json (JObj kvs)\<rparr>
            \<and> distinct (map fst kvs)
            \<and> set (map fst kvs) = {''message'', ''environment'', ''version''}
            \<and> list_all is_str (map snd kvs))
       \<and> (\<exists>kvs. wsgi_app VariantB p r = \<lparr>status = 200, body = Json (JObj kvs)\<rparr>
            \<and> distinct (map fst kvs)
            \<and> set (map fst kvs) = {''message'', ''python_version'', ''environment''}
            \<and> list_all is_str (map snd kvs))"
proof
  show "\<exists>kvs. wsgi_app VariantA p r = \<lparr>status = 200, body = Json (JObj kvs)\<rparr>
            \<and> distinct (map fst kvs)
            \<and> set (map fst kvs) = {''message'', ''environment'', ''version''}
            \<and> list_all is_str (map snd kvs)"
    using assms by (simp add: wsgi_app_root_A hello_def jsonify_def)
next
  show "\<exists>kvs. wsgi_app VariantB p r = \<lparr>status = 200, body = Json (JObj kvs)\<rparr>
            \<and> distinct (map fst kvs)
            \<and> set (map fst kvs) = {''message'', ''python_version'', ''environment''}
            \<and> list_all is_str (map snd kvs)"
    using assms by (simp add: wsgi_app_root_B index_def jsonify_def)
qed

theorem root_body_shape_witness:
  "path \<lparr>path = ''/'', query_string = [], headers = [], data = []\<rparr> = ''/''
   \<and> (\<exists>kvs. wsgi_app VariantA
          \<lparr>environ = [''ENVIRONMENT'' \<mapsto> [], ''APP_VERSION'' \<mapsto> ''not a version''],
           argv = [], sys_version = ''3.12.0''\<rparr>
          \<lparr>path = ''/'', query_string = [], headers = [], data = []\<rparr>
        = \<lparr>status = 200, body = Json (JObj kvs)\<rparr>
        \<and> distinct (map fst kvs)
        \<and> set (map fst kvs) = {''message'', ''environment'', ''version''}
        \<and> list_all is_str (map snd kvs))"
  using root_body_shape
    [of "\<lparr>path = ''/'', query_string = [], headers = [], data = []\<rparr>"
        "\<lparr>environ = [''ENVIRONMENT'' \<mapsto> [], ''APP_VERSION'' \<mapsto> ''not a version''],
          argv = [], sys_version = ''3.12.0''\<rparr>"]
  by simp

end
